theory Spec2Isabelle
  imports Main
begin

section \<open>Values, objects and the state of one invocation\<close>

text \<open>
  The handler classes of \<^verbatim>\<open>src/functions/base-handler\<close> are embedded as state-passing
  functions. A thrown JavaScript value is either a primitive or a reference to an object of
  the store; an object of the store is an instance of \<^verbatim>\<open>Error\<close> (with the name of its class
  and its message) or some other object. References make the identity of an error object
  explicit: two errors with the same message at different addresses are different objects.
\<close>

type_synonym addr = nat

datatype jsval = JUndefined | JNull | JBool bool | JNum int | JStr string | JRef addr

datatype jsobj = ErrorObj string string | PlainObj

datatype log_level = Info | Error

text \<open>
  The second argument of a logger call is an object literal; its leaves are JavaScript
  values or the event of the handler.
\<close>

datatype 'e log_meta = MVal jsval | MEvent 'e | MObj "(string \<times> 'e log_meta) list"

record 'e log_entry =
  level :: log_level
  msg :: string
  meta :: "'e log_meta option"

text \<open>
  The state of one invocation: the object store, the calls made to the logger of the
  context container so far (oldest first) and the event that \<^verbatim>\<open>this.event\<close> holds.
\<close>

record 'e state =
  heap :: "jsobj list"
  logs :: "'e log_entry list"
  this_event :: 'e

text \<open>
  A call either returns a value or throws one (for an \<^verbatim>\<open>async\<close> method: the promise is
  fulfilled or rejected); \<open>None\<close> stands for a call that never completes (a promise that is
  never settled).
\<close>

datatype 'a outcome = Returned 'a | Thrown jsval

type_synonym ('e, 'a) comp = "'e state \<Rightarrow> ('a outcome \<times> 'e state) option"

text \<open>
  Modelled from the spec: the type \<^verbatim>\<open>ContextContainer\<close> of \<^verbatim>\<open>@utils/context-container\<close> is
  not among the sources. Its logger offers \<^verbatim>\<open>logger.info(msg, meta?)\<close> and
  \<^verbatim>\<open>logger.error(msg, meta?)\<close>, and logging never fails: a call records one entry and returns.
\<close>

definition logger_info :: "string \<Rightarrow> 'e log_meta option \<Rightarrow> 'e state \<Rightarrow> 'e state" where
  "logger_info m d s = s\<lparr>logs := logs s @ [\<lparr>level = Info, msg = m, meta = d\<rparr>]\<rparr>"

definition logger_error :: "string \<Rightarrow> 'e log_meta option \<Rightarrow> 'e state \<Rightarrow> 'e state" where
  "logger_error m d s = s\<lparr>logs := logs s @ [\<lparr>level = Error, msg = m, meta = d\<rparr>]\<rparr>"

text \<open>
  Constructing an object allocates it at the next free address of the store;
  \<^verbatim>\<open>new Error(message)\<close> constructs an instance of the class \<^verbatim>\<open>Error\<close> itself.
\<close>

definition alloc :: "jsobj \<Rightarrow> 'e state \<Rightarrow> addr \<times> 'e state" where
  "alloc obj s = (length (heap s), s\<lparr>heap := heap s @ [obj]\<rparr>)"

definition new_Error :: "string \<Rightarrow> 'e state \<Rightarrow> addr \<times> 'e state" where
  "new_Error m s = alloc (ErrorObj ''Error'' m) s"

text \<open>\<^verbatim>\<open>v instanceof Error\<close>: only a reference to an error object of the store passes.\<close>

definition instanceof_Error :: "'e state \<Rightarrow> jsval \<Rightarrow> bool" where
  "instanceof_Error s v =
     (case v of
        JRef a \<Rightarrow>
          (if a < length (heap s)
           then (case heap s ! a of ErrorObj c m \<Rightarrow> True | PlainObj \<Rightarrow> False)
           else False)
      | _ \<Rightarrow> False)"

text \<open>
  The class name and the message of the error object a value refers to, if it refers to
  one.
\<close>

definition error_info :: "'e state \<Rightarrow> jsval \<Rightarrow> (string \<times> string) option" where
  "error_info s v =
     (case v of
        JRef a \<Rightarrow>
          (if a < length (heap s)
           then (case heap s ! a of ErrorObj c m \<Rightarrow> Some (c, m) | PlainObj \<Rightarrow> None)
           else None)
      | _ \<Rightarrow> None)"

section \<open>The lifecycle orchestrator: \<^verbatim>\<open>BaseHandler.execute\<close>\<close>

text \<open>
  \<^verbatim>\<open>handleRequest\<close> and \<^verbatim>\<open>handleError\<close> are abstract in \<^verbatim>\<open>BaseHandler\<close>; the embedding takes
  them as parameters. They are code of a subclass with access to \<^verbatim>\<open>this\<close>: each may log,
  construct objects and assign to \<^verbatim>\<open>this.event\<close>, so each is a function on the whole state.
  The start log is written before the \<^verbatim>\<open>try\<close> block; the \<^verbatim>\<open>catch\<close> block tests the thrown
  value with \<^verbatim>\<open>instanceof Error\<close> and hands either the thrown value itself or a reference to a
  new \<^verbatim>\<open>Error\<close> to \<^verbatim>\<open>handleError\<close>, whose outcome is returned as it is.
\<close>

definition execute :: "('e, 'r) comp \<Rightarrow> (jsval \<Rightarrow> ('e, 'r) comp) \<Rightarrow> ('e, 'r) comp" where
  "execute handleRequest handleError s =
     (case handleRequest (logger_info ''Execution started'' None s) of
        None \<Rightarrow> None
      | Some (Returned result, s1) \<Rightarrow>
          Some (Returned result, logger_info ''Request handled successfully'' None s1)
      | Some (Thrown error, s1) \<Rightarrow>
          if instanceof_Error s1 error then handleError error s1
          else
            (let s2 = logger_error ''Unknown error occurred''
                        (Some (MObj [(''data'', MObj [(''error'', MVal error)])])) s1;
                 (genericError, s3) = new_Error ''Unknown error occurred'' s2
             in handleError (JRef genericError) s3))"

text \<open>Which log entries are the start log, the success log and an error log.\<close>

definition is_start_log :: "'e log_entry \<Rightarrow> bool" where
  "is_start_log e = (level e = Info \<and> msg e = ''Execution started'')"

definition is_success_log :: "'e log_entry \<Rightarrow> bool" where
  "is_success_log e = (level e = Info \<and> msg e = ''Request handled successfully'')"

definition is_error_log :: "'e log_entry \<Rightarrow> bool" where
  "is_error_log e = (level e = Error)"

definition count_logs :: "('e log_entry \<Rightarrow> bool) \<Rightarrow> 'e log_entry list \<Rightarrow> nat" where
  "count_logs P es = length (filter P es)"


section \<open>The identity-event specialization: \<^verbatim>\<open>CognitoBaseHandler\<close>\<close>

text \<open>
  \<^verbatim>\<open>handleError\<close> logs the error together with \<^verbatim>\<open>this.event\<close> and throws the error it was
  given. The result type of the class is its event type.
\<close>

definition CognitoBaseHandler_handleError :: "jsval \<Rightarrow> ('e, 'e) comp" where
  "CognitoBaseHandler_handleError error s =
     Some (Thrown error,
           logger_error ''Error occurred in Cognito handler''
             (Some (MObj [(''error'', MVal error), (''event'', MEvent (this_event s))])) s)"

section \<open>The HTTP specialization: \<^verbatim>\<open>APIGatewayBaseHandler\<close>\<close>

text \<open>
  Of an \<^verbatim>\<open>APIGatewayProxyEvent\<close> the class reads the body (\<^verbatim>\<open>string | null\<close>) and the headers;
  every other field is carried in \<open>other\<close>. An \<^verbatim>\<open>APIGatewayParsedEvent\<close> is the same record with
  a key-value mapping as its body.
\<close>

record ('b, 'x) gateway_event =
  body :: 'b
  headers :: "(string \<times> string) list"
  other :: 'x

type_synonym 'x APIGatewayProxyEvent = "(string option, 'x) gateway_event"

type_synonym ('v, 'x) APIGatewayParsedEvent = "((string \<times> 'v) list, 'x) gateway_event"

record APIGatewayProxyResult =
  statusCode :: int
  resultHeaders :: "(string \<times> string) list"
  resultBody :: string

text \<open>
  The condition \<^verbatim>\<open>this.event.body ? ... : ...\<close> tests the body for truthiness: \<^verbatim>\<open>null\<close> and the
  empty string are falsy, every other string is truthy.
\<close>

definition truthy :: "string option \<Rightarrow> bool" where
  "truthy b = (case b of None \<Rightarrow> False | Some t \<Rightarrow> t \<noteq> [])"

text \<open>
  The mediators the class imports (\<^verbatim>\<open>checkAccess\<close>, \<^verbatim>\<open>parseJSONBody\<close>, \<^verbatim>\<open>zodParser\<close>,
  \<^verbatim>\<open>handleError\<close>) are not among the sources. Each method takes the mediator it delegates to
  as its first parameter; a mediator receives the context container, so it may log, allocate
  and throw. The schema is the \<^verbatim>\<open>readonly\<close> field set by the constructor.
\<close>

definition checkAccess ::
  "('x APIGatewayProxyEvent \<Rightarrow> 'role list \<Rightarrow> ('x APIGatewayProxyEvent, unit) comp)
     \<Rightarrow> 'role list \<Rightarrow> ('x APIGatewayProxyEvent, unit) comp" where
  "checkAccess auth roles s = auth (this_event s) roles s"

definition parseJSONBody ::
  "(string option \<Rightarrow> (string \<times> string) list \<Rightarrow> ('e, (string \<times> 'v) list) comp)
     \<Rightarrow> string option \<Rightarrow> (string \<times> string) list \<Rightarrow> ('e, (string \<times> 'v) list) comp" where
  "parseJSONBody json_body_parser b h s = json_body_parser b h s"

text \<open>
  \<^verbatim>\<open>parseSchema\<close> builds the object literal \<^verbatim>\<open>{...this.event, body: ...}\<close>: the spread copies the
  fields of the event first, then the body is computed. A throw of \<^verbatim>\<open>parseJSONBody\<close> leaves
  the method before \<^verbatim>\<open>zodParser\<close> is called.
\<close>

definition parseSchema ::
  "(string option \<Rightarrow> (string \<times> string) list
       \<Rightarrow> ('x APIGatewayProxyEvent, (string \<times> 'v) list) comp)
     \<Rightarrow> ('s \<Rightarrow> ('v, 'x) APIGatewayParsedEvent \<Rightarrow> ('x APIGatewayProxyEvent, 't) comp)
     \<Rightarrow> 's \<Rightarrow> ('x APIGatewayProxyEvent, 't) comp" where
  "parseSchema json_body_parser zodParser schema s =
     (let ev = this_event s in
      if truthy (body ev) then
        (case parseJSONBody json_body_parser (body ev) (headers ev) s of
           None \<Rightarrow> None
         | Some (Thrown e, s1) \<Rightarrow> Some (Thrown e, s1)
         | Some (Returned m, s1) \<Rightarrow>
             zodParser schema \<lparr>body = m, headers = headers ev, other = other ev\<rparr> s1)
      else zodParser schema \<lparr>body = [], headers = headers ev, other = other ev\<rparr> s)"

definition APIGatewayBaseHandler_handleError ::
  "(jsval \<Rightarrow> 'x APIGatewayProxyEvent
       \<Rightarrow> ('x APIGatewayProxyEvent, APIGatewayProxyResult) comp)
     \<Rightarrow> jsval \<Rightarrow> ('x APIGatewayProxyEvent, APIGatewayProxyResult) comp" where
  "APIGatewayBaseHandler_handleError error_handler error s = error_handler error (this_event s) s"

text \<open>
  Modelled from the spec: \<^verbatim>\<open>formatResponse\<close> of \<^verbatim>\<open>@utils/response\<close> and its type \<^verbatim>\<open>Input\<close> are
  not among the sources. The Response Formatter is a pure, deterministic mapping from a
  \<^verbatim>\<open>{statusCode, body, headers}\<close>-shaped input to the response representation of the platform
  (status code, headers, body), and it is not given the context container. How the body is
  written as a string is the parameter \<open>serialize\<close>.
\<close>

record 'b Input =
  inputStatusCode :: int
  inputBody :: 'b
  inputHeaders :: "(string \<times> string) list"

definition response_formatResponse :: "('b \<Rightarrow> string) \<Rightarrow> 'b Input \<Rightarrow> APIGatewayProxyResult" where
  "response_formatResponse serialize response =
     \<lparr>statusCode = inputStatusCode response,
      resultHeaders = inputHeaders response,
      resultBody = serialize (inputBody response)\<rparr>"

definition formatResponse ::
  "('i \<Rightarrow> APIGatewayProxyResult) \<Rightarrow> 'i \<Rightarrow> ('e, APIGatewayProxyResult) comp" where
  "formatResponse formatter response s = Some (Returned (formatter response), s)"

text \<open>
  Modelled from the spec: the Authorization mediator (\<^verbatim>\<open>checkAccess\<close> of \<^verbatim>\<open>@utils/auth\<close>) is not
  among the sources. It is called with (context, event, roles) and fails with
  AuthorizationError if the current actor holds none of the given roles; an empty role set
  always fails. How the roles of the actor are found from the context and the event is the
  parameter \<open>actor_roles\<close>.
\<close>

fun holds_any :: "'role list \<Rightarrow> 'role list \<Rightarrow> bool" where
  "holds_any held [] = False"
| "holds_any held (r # rs) = (r \<in> set held \<or> holds_any held rs)"

definition auth_checkAccess :: "('ev \<Rightarrow> 'role list) \<Rightarrow> 'ev \<Rightarrow> 'role list \<Rightarrow> ('e, unit) comp" where
  "auth_checkAccess actor_roles ev roles s =
     (if holds_any (actor_roles ev) roles then Some (Returned (), s)
      else (let (a, s1) = alloc (ErrorObj ''AuthorizationError'' []) s
            in Some (Thrown (JRef a), s1)))"

text \<open>
  Modelled from the spec: the Error Classifier mediator (\<^verbatim>\<open>handleError\<close> of
  \<^verbatim>\<open>@utils/mediators/error-handler\<close>) is not among the sources. It is called with (context,
  error, event), is total (it never throws), inspects the kind of the error and returns an
  appropriate response; an error of a kind it does not recognise degrades to a generic
  server-error response that exposes no internal error text. The spec leaves the mapping
  from the recognised kinds to their responses open: it is the parameter \<open>table\<close>, from the
  class name of the error to the response built from its message.
\<close>

definition generic_server_error :: APIGatewayProxyResult where
  "generic_server_error =
     \<lparr>statusCode = 500, resultHeaders = [], resultBody = ''Internal Server Error''\<rparr>"

definition error_handler_handleError ::
  "(string \<Rightarrow> (string \<Rightarrow> APIGatewayProxyResult) option) \<Rightarrow> jsval \<Rightarrow> 'ev
     \<Rightarrow> ('e, APIGatewayProxyResult) comp" where
  "error_handler_handleError table error ev s =
     Some (Returned
             (case error_info s error of
                None \<Rightarrow> generic_server_error
              | Some (c, m) \<Rightarrow>
                  (case table c of None \<Rightarrow> generic_server_error | Some respond \<Rightarrow> respond m)),
           s)"

section \<open>Example handlers and mediators\<close>

text \<open>
  Concrete subclasses and mediators on which the theorems below are instantiated: the state
  at the start of an invocation, bodies of \<^verbatim>\<open>handleRequest\<close> that return a value, throw a
  value or throw a new \<^verbatim>\<open>Error\<close>, and a \<^verbatim>\<open>handleError\<close> that returns a fallback result without
  logging.
\<close>

definition initial :: "'e \<Rightarrow> 'e state" where
  "initial ev = \<lparr>heap = [], logs = [], this_event = ev\<rparr>"

definition return_value :: "'r \<Rightarrow> ('e, 'r) comp" where
  "return_value v s = Some (Returned v, s)"

definition throw_value :: "jsval \<Rightarrow> ('e, 'r) comp" where
  "throw_value v s = Some (Thrown v, s)"

definition throw_new_Error :: "string \<Rightarrow> ('e, 'r) comp" where
  "throw_new_Error m s = (let (a, s1) = new_Error m s in Some (Thrown (JRef a), s1))"

definition fallback_handleError :: "'r \<Rightarrow> jsval \<Rightarrow> ('e, 'r) comp" where
  "fallback_handleError r error s = Some (Returned r, s)"

text \<open>A \<^verbatim>\<open>handleRequest\<close> that logs an error itself and then throws a new \<^verbatim>\<open>Error\<close>.\<close>

definition log_error_then_throw :: "string \<Rightarrow> ('e, 'r) comp" where
  "log_error_then_throw m s = throw_new_Error m (logger_error m None s)"

text \<open>
  A body parser given by a finite table from body texts to mappings; any other body is
  malformed and makes it throw a ParseError. A validator whose schema is a list of required
  keys; a view that lacks one makes it throw a ValidationError.
\<close>

definition table_parser ::
  "(string \<times> (string \<times> 'v) list) list \<Rightarrow> string option \<Rightarrow> (string \<times> string) list
     \<Rightarrow> ('e, (string \<times> 'v) list) comp" where
  "table_parser tab b h s =
     (case b of
        None \<Rightarrow> Some (Returned [], s)
      | Some t \<Rightarrow>
          (case map_of tab t of
             Some m \<Rightarrow> Some (Returned m, s)
           | None \<Rightarrow>
               (let (a, s1) = alloc (ErrorObj ''ParseError'' ''malformed body'') s
                in Some (Thrown (JRef a), s1))))"

definition required_keys ::
  "string list \<Rightarrow> ('v, 'x) APIGatewayParsedEvent \<Rightarrow> ('e, (string \<times> 'v) list) comp" where
  "required_keys schema view s =
     (if set schema \<subseteq> set (map fst (body view)) then Some (Returned (body view), s)
      else (let (a, s1) = alloc (ErrorObj ''ValidationError'' ''missing field'') s
            in Some (Thrown (JRef a), s1)))"

section \<open>The three paths of \<^verbatim>\<open>execute\<close>\<close>

lemma logs_logger_info:
  "logs (logger_info m d s) = logs s @ [\<lparr>level = Info, msg = m, meta = d\<rparr>]"
  by (simp add: logger_info_def)

lemma logs_logger_error:
  "logs (logger_error m d s) = logs s @ [\<lparr>level = Error, msg = m, meta = d\<rparr>]"
  by (simp add: logger_error_def)

lemma count_logs_append: "count_logs P (es @ fs) = count_logs P es + count_logs P fs"
  by (simp add: count_logs_def)

lemma execute_pending:
  "handleRequest (logger_info ''Execution started'' None s) = None
     \<Longrightarrow> execute handleRequest handleError s = None"
  by (simp add: execute_def)

lemma execute_returned:
  "handleRequest (logger_info ''Execution started'' None s) = Some (Returned v, s1)
     \<Longrightarrow> execute handleRequest handleError s
           = Some (Returned v, logger_info ''Request handled successfully'' None s1)"
  by (simp add: execute_def)

lemma execute_thrown_Error:
  "handleRequest (logger_info ''Execution started'' None s) = Some (Thrown err, s1)
     \<Longrightarrow> instanceof_Error s1 err
     \<Longrightarrow> execute handleRequest handleError s = handleError err s1"
  by (simp add: execute_def)

lemma execute_thrown_other:
  "handleRequest (logger_info ''Execution started'' None s) = Some (Thrown v, s1)
     \<Longrightarrow> \<not> instanceof_Error s1 v
     \<Longrightarrow> execute handleRequest handleError s
           = handleError (JRef (length (heap s1)))
               (s1\<lparr>logs := logs s1 @ [\<lparr>level = Error, msg = ''Unknown error occurred'',
                                       meta = Some (MObj [(''data'', MObj [(''error'', MVal v)])])\<rparr>],
                    heap := heap s1 @ [ErrorObj ''Error'' ''Unknown error occurred'']\<rparr>)"
  by (simp add: execute_def logger_error_def new_Error_def alloc_def)

lemma count_start_simps:
  "count_logs is_start_log [\<lparr>level = Info, msg = ''Execution started'', meta = d\<rparr>] = 1"
  "count_logs is_start_log [\<lparr>level = Info, msg = ''Request handled successfully'', meta = d\<rparr>] = 0"
  "count_logs is_start_log [\<lparr>level = Error, msg = m, meta = d\<rparr>] = 0"
  by (simp_all add: count_logs_def is_start_log_def)

lemma count_success_simps:
  "count_logs is_success_log [\<lparr>level = Info, msg = ''Execution started'', meta = d\<rparr>] = 0"
  "count_logs is_success_log [\<lparr>level = Info, msg = ''Request handled successfully'', meta = d\<rparr>] = 1"
  "count_logs is_success_log [\<lparr>level = Error, msg = m, meta = d\<rparr>] = 0"
  by (simp_all add: count_logs_def is_success_log_def)

lemma count_error_simps:
  "count_logs is_error_log [\<lparr>level = Info, msg = m, meta = d\<rparr>] = 0"
  "count_logs is_error_log [\<lparr>level = Error, msg = m, meta = d\<rparr>] = 1"
  by (simp_all add: count_logs_def is_error_log_def)

section \<open>Success\<close>

text \<open>
  C1. When \<^verbatim>\<open>handleRequest\<close> resolves with a value, \<^verbatim>\<open>execute\<close> returns exactly that value and
  appends exactly one success log to what \<^verbatim>\<open>handleRequest\<close> left; \<^verbatim>\<open>handleRequest\<close> itself was
  started right after the start log. \<^verbatim>\<open>handleError\<close> is not invoked: the result is the same
  for every \<^verbatim>\<open>handleError\<close>. No error log is added.
\<close>

theorem execute_success:
  assumes "handleRequest (logger_info ''Execution started'' None s) = Some (Returned v, s1)"
  shows "execute handleRequest handleError s
           = Some (Returned v,
                   s1\<lparr>logs := logs s1 @ [\<lparr>level = Info, msg = ''Request handled successfully'',
                                       meta = None\<rparr>]\<rparr>)
       \<and> execute handleRequest handleError' s = execute handleRequest handleError s
       \<and> logs (logger_info ''Execution started'' None s)
           = logs s @ [\<lparr>level = Info, msg = ''Execution started'', meta = None\<rparr>]
       \<and> count_logs is_success_log
           (logs s1 @ [\<lparr>level = Info, msg = ''Request handled successfully'', meta = None\<rparr>])
           = count_logs is_success_log (logs s1) + 1
       \<and> count_logs is_error_log
           (logs s1 @ [\<lparr>level = Info, msg = ''Request handled successfully'', meta = None\<rparr>])
           = count_logs is_error_log (logs s1)"
proof -
  have "execute handleRequest h s
          = Some (Returned v, logger_info ''Request handled successfully'' None s1)" for h
    using assms by (rule execute_returned)
  then show ?thesis
    by (simp add: logger_info_def count_logs_append count_success_simps count_error_simps)
qed

theorem execute_success_witness:
  "return_value (7::int) (logger_info ''Execution started'' None (initial ()))
     = Some (Returned 7, logger_info ''Execution started'' None (initial ()))
   \<and> execute (return_value (7::int)) (fallback_handleError 0) (initial ())
     = Some (Returned 7,
         \<lparr>heap = [],
          logs = [\<lparr>level = Info, msg = ''Execution started'', meta = None\<rparr>,
                  \<lparr>level = Info, msg = ''Request handled successfully'', meta = None\<rparr>],
          this_event = ()\<rparr>)"
proof -
  have h: "return_value (7::int) (logger_info ''Execution started'' None (initial ()))
             = Some (Returned 7, logger_info ''Execution started'' None (initial ()))"
    by (simp add: return_value_def)
  show ?thesis
    using h execute_success [where handleRequest = "return_value (7::int)" and s = "initial ()"
        and v = 7 and ?s1.0 = "logger_info ''Execution started'' None (initial ())"
        and handleError = "fallback_handleError 0" and handleError' = "fallback_handleError 0"]
    by (simp add: initial_def logger_info_def)
qed

section \<open>Failure with an \<^verbatim>\<open>Error\<close>\<close>

text \<open>
  C2, as the spec states it, asks for exactly one error log in every invocation whose
  \<^verbatim>\<open>handleRequest\<close> fails with an \<^verbatim>\<open>Error\<close>. \<^verbatim>\<open>execute\<close> writes no log on this path, so the
  error logs are those of \<^verbatim>\<open>handleError\<close>, which is abstract: with a \<^verbatim>\<open>handleError\<close> that returns
  a fallback result without logging, the invocation ends with the start log alone.
\<close>

theorem execute_Error_silent_handler:
  "execute (throw_new_Error ''invalid token'') (fallback_handleError (0::int)) (initial ())
     = Some (Returned 0,
         \<lparr>heap = [ErrorObj ''Error'' ''invalid token''],
          logs = [\<lparr>level = Info, msg = ''Execution started'', meta = None\<rparr>],
          this_event = ()\<rparr>)
   \<and> count_logs is_error_log
        [\<lparr>level = Info, msg = ''Execution started'', meta = None :: unit log_meta option\<rparr>] = 0"
  by (simp add: execute_def throw_new_Error_def fallback_handleError_def initial_def
        logger_info_def new_Error_def alloc_def instanceof_Error_def count_error_simps)

text \<open>
  C2, amended. When \<^verbatim>\<open>handleRequest\<close> fails with an \<^verbatim>\<open>Error\<close>, \<^verbatim>\<open>execute\<close> is one call of
  \<^verbatim>\<open>handleError\<close> on that same thrown reference, in the state \<^verbatim>\<open>handleRequest\<close> left: the outcome
  of \<^verbatim>\<open>handleError\<close> (a result, an escalated error, or no completion) is the outcome of
  \<^verbatim>\<open>execute\<close>, unwrapped. \<^verbatim>\<open>execute\<close> writes no log of its own after the start log: when
  \<^verbatim>\<open>handleRequest\<close> logged the entries \<open>hs\<close> and \<^verbatim>\<open>handleError\<close> logs the entries \<open>es\<close>, the
  invocation ends with the start log, then \<open>hs\<close>, then \<open>es\<close>. So beyond what \<^verbatim>\<open>handleRequest\<close>
  itself logs, the error logs of the invocation are exactly those that \<^verbatim>\<open>handleError\<close> writes.
\<close>

theorem execute_Error_forwards:
  assumes "handleRequest (logger_info ''Execution started'' None s) = Some (Thrown err, s1)"
      and "instanceof_Error s1 err"
  shows "execute handleRequest handleError s = handleError err s1
       \<and> logs (logger_info ''Execution started'' None s)
           = logs s @ [\<lparr>level = Info, msg = ''Execution started'', meta = None\<rparr>]
       \<and> (handleError err s1 = Some (r, s2)
            \<and> logs s1 = logs (logger_info ''Execution started'' None s) @ hs
            \<and> logs s2 = logs s1 @ es
          \<longrightarrow> execute handleRequest handleError s = Some (r, s2)
              \<and> logs s2
                  = logs s @ [\<lparr>level = Info, msg = ''Execution started'', meta = None\<rparr>] @ hs @ es
              \<and> count_logs is_error_log (logs s2)
                  = count_logs is_error_log (logs s) + count_logs is_error_log hs
                    + count_logs is_error_log es)"
proof -
  have a: "execute handleRequest handleError s = handleError err s1"
    using assms by (rule execute_thrown_Error)
  have b: "logs (logger_info ''Execution started'' None s)
             = logs s @ [\<lparr>level = Info, msg = ''Execution started'', meta = None\<rparr>]"
    by (rule logs_logger_info)
  have c: "execute handleRequest handleError s = Some (r, s2)
         \<and> logs s2
             = logs s @ [\<lparr>level = Info, msg = ''Execution started'', meta = None\<rparr>] @ hs @ es
         \<and> count_logs is_error_log (logs s2)
             = count_logs is_error_log (logs s) + count_logs is_error_log hs
               + count_logs is_error_log es"
    if "handleError err s1 = Some (r, s2)"
      and "logs s1 = logs (logger_info ''Execution started'' None s) @ hs"
      and "logs s2 = logs s1 @ es"
    using that a b by (simp add: count_logs_def is_error_log_def)
  from a b c show ?thesis by blast
qed

theorem execute_Error_forwards_witness:
  "log_error_then_throw ''invalid token''
       (logger_info ''Execution started'' None (initial ''sign-up''))
     = Some (Thrown (JRef 0),
         \<lparr>heap = [ErrorObj ''Error'' ''invalid token''],
          logs = [\<lparr>level = Info, msg = ''Execution started'', meta = None\<rparr>,
                  \<lparr>level = Error, msg = ''invalid token'', meta = None\<rparr>],
          this_event = ''sign-up''\<rparr>)
   \<and> instanceof_Error
        \<lparr>heap = [ErrorObj ''Error'' ''invalid token''],
         logs = [\<lparr>level = Info, msg = ''Execution started'', meta = None\<rparr>,
                 \<lparr>level = Error, msg = ''invalid token'', meta = None\<rparr>],
         this_event = ''sign-up''\<rparr> (JRef 0)
   \<and> execute (log_error_then_throw ''invalid token'') CognitoBaseHandler_handleError
        (initial ''sign-up'')
     = Some (Thrown (JRef 0),
         \<lparr>heap = [ErrorObj ''Error'' ''invalid token''],
          logs = [\<lparr>level = Info, msg = ''Execution started'', meta = None\<rparr>,
                  \<lparr>level = Error, msg = ''invalid token'', meta = None\<rparr>,
                  \<lparr>level = Error, msg = ''Error occurred in Cognito handler'',
                   meta = Some (MObj [(''error'', MVal (JRef 0)),
                                      (''event'', MEvent ''sign-up'')])\<rparr>],
          this_event = ''sign-up''\<rparr>)
   \<and> count_logs is_error_log
        [\<lparr>level = Info, msg = ''Execution started'', meta = None\<rparr>,
         \<lparr>level = Error, msg = ''invalid token'', meta = None\<rparr>,
         \<lparr>level = Error, msg = ''Error occurred in Cognito handler'',
          meta = Some (MObj [(''error'', MVal (JRef 0)), (''event'', MEvent ''sign-up'')])\<rparr>]
       = 0 + count_logs is_error_log
               [\<lparr>level = Error, msg = ''invalid token'',
                 meta = None :: string log_meta option\<rparr>]
           + count_logs is_error_log
               [\<lparr>level = Error, msg = ''Error occurred in Cognito handler'',
                 meta = Some (MObj [(''error'', MVal (JRef 0)),
                                    (''event'', MEvent ''sign-up'')])\<rparr>]"
proof -
  let ?start = "\<lparr>level = Info, msg = ''Execution started'',
                 meta = None :: string log_meta option\<rparr>"
  let ?own = "\<lparr>level = Error, msg = ''invalid token'',
               meta = None :: string log_meta option\<rparr>"
  let ?cog = "\<lparr>level = Error, msg = ''Error occurred in Cognito handler'',
               meta = Some (MObj [(''error'', MVal (JRef 0)),
                                  (''event'', MEvent ''sign-up'')])\<rparr>"
  let ?s1 = "\<lparr>heap = [ErrorObj ''Error'' ''invalid token''], logs = [?start, ?own],
              this_event = ''sign-up''\<rparr>"
  let ?s2 = "\<lparr>heap = [ErrorObj ''Error'' ''invalid token''], logs = [?start, ?own, ?cog],
              this_event = ''sign-up''\<rparr>"
  have h1: "log_error_then_throw ''invalid token''
              (logger_info ''Execution started'' None (initial ''sign-up''))
              = Some (Thrown (JRef 0), ?s1)"
    by (simp add: log_error_then_throw_def throw_new_Error_def new_Error_def alloc_def
          logger_info_def logger_error_def initial_def)
  have h2: "instanceof_Error ?s1 (JRef 0)"
    by (simp add: instanceof_Error_def)
  have h3: "CognitoBaseHandler_handleError (JRef 0) ?s1 = Some (Thrown (JRef 0), ?s2)"
    by (simp add: CognitoBaseHandler_handleError_def logger_error_def)
  have h4: "logs ?s1 = logs (logger_info ''Execution started'' None (initial ''sign-up'')) @ [?own]"
    by (simp add: logger_info_def initial_def)
  have h5: "logs ?s2 = logs ?s1 @ [?cog]"
    by simp
  note th = execute_Error_forwards [where handleRequest = "log_error_then_throw ''invalid token''"
        and s = "initial ''sign-up''" and err = "JRef 0" and ?s1.0 = ?s1
        and handleError = CognitoBaseHandler_handleError
        and r = "Thrown (JRef 0)" and ?s2.0 = ?s2 and hs = "[?own]" and es = "[?cog]",
        OF h1 h2]
  from th h3 h4 h5 have
    c: "execute (log_error_then_throw ''invalid token'') CognitoBaseHandler_handleError
          (initial ''sign-up'') = Some (Thrown (JRef 0), ?s2)
        \<and> count_logs is_error_log (logs ?s2)
            = count_logs is_error_log (logs (initial ''sign-up''))
              + count_logs is_error_log [?own] + count_logs is_error_log [?cog]"
    by blast
  have d: "count_logs is_error_log (logs (initial ''sign-up'' :: string state)) = 0"
    by (simp add: initial_def count_logs_def)
  from c d have e: "count_logs is_error_log [?start, ?own, ?cog]
                      = 0 + count_logs is_error_log [?own] + count_logs is_error_log [?cog]"
    by simp
  from h1 h2 c e show ?thesis by (intro conjI) simp_all
qed

section \<open>A thrown value that is not an \<^verbatim>\<open>Error\<close>\<close>

text \<open>
  C3. When \<^verbatim>\<open>handleRequest\<close> throws a value that is not an \<^verbatim>\<open>Error\<close>, \<^verbatim>\<open>execute\<close> logs one error
  entry whose data holds the thrown value, allocates a new \<^verbatim>\<open>Error\<close> object (at an address
  that held no error before) whose message is exactly \<^verbatim>\<open>Unknown error occurred\<close>, and
  is one call of \<^verbatim>\<open>handleError\<close> on the reference to that object. The thrown value occurs in
  the diagnostic entry only: the error \<^verbatim>\<open>handleError\<close> receives has the fixed message, and in
  the identity-event specialization that same object is what escalates from \<^verbatim>\<open>execute\<close>.
\<close>

theorem execute_non_Error_synthesizes:
  assumes "handleRequest (logger_info ''Execution started'' None s) = Some (Thrown v, s1)"
      and "\<not> instanceof_Error s1 v"
      and "handleRequest' (logger_info ''Execution started'' None t) = Some (Thrown w, t1)"
      and "\<not> instanceof_Error t1 w"
  shows "execute handleRequest handleError s
           = handleError (JRef (length (heap s1)))
               (s1\<lparr>logs := logs s1 @ [\<lparr>level = Error, msg = ''Unknown error occurred'',
                                       meta = Some (MObj [(''data'', MObj [(''error'', MVal v)])])\<rparr>],
                    heap := heap s1 @ [ErrorObj ''Error'' ''Unknown error occurred'']\<rparr>)
       \<and> error_info
           (s1\<lparr>logs := logs s1 @ [\<lparr>level = Error, msg = ''Unknown error occurred'',
                                   meta = Some (MObj [(''data'', MObj [(''error'', MVal v)])])\<rparr>],
                heap := heap s1 @ [ErrorObj ''Error'' ''Unknown error occurred'']\<rparr>)
           (JRef (length (heap s1)))
           = Some (''Error'', ''Unknown error occurred'')
       \<and> error_info s1 (JRef (length (heap s1))) = None
       \<and> execute handleRequest' CognitoBaseHandler_handleError t
           = Some (Thrown (JRef (length (heap t1))),
                   t1\<lparr>logs := logs t1 @
                         [\<lparr>level = Error, msg = ''Unknown error occurred'',
                           meta = Some (MObj [(''data'', MObj [(''error'', MVal w)])])\<rparr>,
                          \<lparr>level = Error, msg = ''Error occurred in Cognito handler'',
                           meta = Some (MObj [(''error'', MVal (JRef (length (heap t1)))),
                                              (''event'', MEvent (this_event t1))])\<rparr>],
                      heap := heap t1 @ [ErrorObj ''Error'' ''Unknown error occurred'']\<rparr>)"
proof -
  have a: "execute handleRequest handleError s
           = handleError (JRef (length (heap s1)))
               (s1\<lparr>logs := logs s1 @ [\<lparr>level = Error, msg = ''Unknown error occurred'',
                                       meta = Some (MObj [(''data'', MObj [(''error'', MVal v)])])\<rparr>],
                    heap := heap s1 @ [ErrorObj ''Error'' ''Unknown error occurred'']\<rparr>)"
    using assms(1,2) by (rule execute_thrown_other)
  have b: "error_info
           (s1\<lparr>logs := logs s1 @ [\<lparr>level = Error, msg = ''Unknown error occurred'',
                                   meta = Some (MObj [(''data'', MObj [(''error'', MVal v)])])\<rparr>],
                heap := heap s1 @ [ErrorObj ''Error'' ''Unknown error occurred'']\<rparr>)
           (JRef (length (heap s1)))
           = Some (''Error'', ''Unknown error occurred'')"
    by (simp add: error_info_def)
  have c: "error_info s1 (JRef (length (heap s1))) = None"
    by (simp add: error_info_def)
  have d: "execute handleRequest' CognitoBaseHandler_handleError t
           = Some (Thrown (JRef (length (heap t1))),
                   t1\<lparr>logs := logs t1 @
                         [\<lparr>level = Error, msg = ''Unknown error occurred'',
                           meta = Some (MObj [(''data'', MObj [(''error'', MVal w)])])\<rparr>,
                          \<lparr>level = Error, msg = ''Error occurred in Cognito handler'',
                           meta = Some (MObj [(''error'', MVal (JRef (length (heap t1)))),
                                              (''event'', MEvent (this_event t1))])\<rparr>],
                      heap := heap t1 @ [ErrorObj ''Error'' ''Unknown error occurred'']\<rparr>)"
  proof -
    have "execute handleRequest' CognitoBaseHandler_handleError t
           = CognitoBaseHandler_handleError (JRef (length (heap t1)))
               (t1\<lparr>logs := logs t1 @ [\<lparr>level = Error, msg = ''Unknown error occurred'',
                                       meta = Some (MObj [(''data'', MObj [(''error'', MVal w)])])\<rparr>],
                    heap := heap t1 @ [ErrorObj ''Error'' ''Unknown error occurred'']\<rparr>)"
      using assms(3,4) by (rule execute_thrown_other)
    then show ?thesis
      by (simp add: CognitoBaseHandler_handleError_def logger_error_def)
  qed
  from a b c d show ?thesis by blast
qed

theorem execute_non_Error_synthesizes_witness:
  "throw_value (JStr ''boom'') (logger_info ''Execution started'' None (initial ()))
     = Some (Thrown (JStr ''boom''), logger_info ''Execution started'' None (initial ()))
   \<and> \<not> instanceof_Error (logger_info ''Execution started'' None (initial ())) (JStr ''boom'')
   \<and> execute (throw_value (JStr ''boom'')) (fallback_handleError (0::int)) (initial ())
     = Some (Returned 0,
         \<lparr>heap = [ErrorObj ''Error'' ''Unknown error occurred''],
          logs = [\<lparr>level = Info, msg = ''Execution started'', meta = None\<rparr>,
                  \<lparr>level = Error, msg = ''Unknown error occurred'',
                   meta = Some (MObj [(''data'', MObj [(''error'', MVal (JStr ''boom''))])])\<rparr>],
          this_event = ()\<rparr>)
   \<and> execute (throw_value (JStr ''boom'')) CognitoBaseHandler_handleError (initial ())
     = Some (Thrown (JRef 0),
         \<lparr>heap = [ErrorObj ''Error'' ''Unknown error occurred''],
          logs = [\<lparr>level = Info, msg = ''Execution started'', meta = None\<rparr>,
                  \<lparr>level = Error, msg = ''Unknown error occurred'',
                   meta = Some (MObj [(''data'', MObj [(''error'', MVal (JStr ''boom''))])])\<rparr>,
                  \<lparr>level = Error, msg = ''Error occurred in Cognito handler'',
                   meta = Some (MObj [(''error'', MVal (JRef 0)), (''event'', MEvent ())])\<rparr>],
          this_event = ()\<rparr>)"
proof -
  let ?s1 = "logger_info ''Execution started'' None (initial ())"
  have h1: "throw_value (JStr ''boom'') ?s1 = Some (Thrown (JStr ''boom''), ?s1)"
    by (simp add: throw_value_def)
  have h2: "\<not> instanceof_Error ?s1 (JStr ''boom'')"
    by (simp add: instanceof_Error_def)
  note th = execute_non_Error_synthesizes [where handleRequest = "throw_value (JStr ''boom'')"
        and s = "initial ()" and v = "JStr ''boom''" and ?s1.0 = ?s1
        and handleError = "fallback_handleError (0::int)"
        and handleRequest' = "throw_value (JStr ''boom'')"
        and t = "initial ()" and w = "JStr ''boom''" and ?t1.0 = ?s1, OF h1 h2 h1 h2]
  from th have
    "execute (throw_value (JStr ''boom'')) (fallback_handleError (0::int)) (initial ())
       = Some (Returned 0,
           \<lparr>heap = [ErrorObj ''Error'' ''Unknown error occurred''],
            logs = [\<lparr>level = Info, msg = ''Execution started'', meta = None\<rparr>,
                    \<lparr>level = Error, msg = ''Unknown error occurred'',
                     meta = Some (MObj [(''data'', MObj [(''error'', MVal (JStr ''boom''))])])\<rparr>],
            this_event = ()\<rparr>)"
    by (simp add: initial_def logger_info_def fallback_handleError_def)
  moreover from th have
    "execute (throw_value (JStr ''boom'')) CognitoBaseHandler_handleError (initial ())
       = Some (Thrown (JRef 0),
           \<lparr>heap = [ErrorObj ''Error'' ''Unknown error occurred''],
            logs = [\<lparr>level = Info, msg = ''Execution started'', meta = None\<rparr>,
                    \<lparr>level = Error, msg = ''Unknown error occurred'',
                     meta = Some (MObj [(''data'', MObj [(''error'', MVal (JStr ''boom''))])])\<rparr>,
                    \<lparr>level = Error, msg = ''Error occurred in Cognito handler'',
                     meta = Some (MObj [(''error'', MVal (JRef 0)), (''event'', MEvent ())])\<rparr>],
            this_event = ()\<rparr>)"
    by (simp add: initial_def logger_info_def)
  ultimately show ?thesis using h1 h2 by blast
qed

lemma error_info_logs_update: "error_info (s\<lparr>logs := l\<rparr>) v = error_info s v"
  by (simp add: error_info_def split: jsval.split)

section \<open>The logs of one invocation\<close>

text \<open>
  C4, as the spec states it, asks for exactly one log out of success log and error log in
  every invocation. In the identity-event specialization a thrown string gives two error
  logs: the diagnostic of \<^verbatim>\<open>execute\<close> and then the entry of \<^verbatim>\<open>handleError\<close>.
\<close>

theorem cognito_non_Error_two_error_logs:
  "execute (throw_value (JStr ''boom'')) CognitoBaseHandler_handleError (initial ())
     = Some (Thrown (JRef 0),
         \<lparr>heap = [ErrorObj ''Error'' ''Unknown error occurred''],
          logs = [\<lparr>level = Info, msg = ''Execution started'', meta = None\<rparr>,
                  \<lparr>level = Error, msg = ''Unknown error occurred'',
                   meta = Some (MObj [(''data'', MObj [(''error'', MVal (JStr ''boom''))])])\<rparr>,
                  \<lparr>level = Error, msg = ''Error occurred in Cognito handler'',
                   meta = Some (MObj [(''error'', MVal (JRef 0)), (''event'', MEvent ())])\<rparr>],
          this_event = ()\<rparr>)
   \<and> count_logs is_error_log
        [\<lparr>level = Info, msg = ''Execution started'', meta = None\<rparr>,
         \<lparr>level = Error, msg = ''Unknown error occurred'',
          meta = Some (MObj [(''data'', MObj [(''error'', MVal (JStr ''boom''))])])\<rparr>,
         \<lparr>level = Error, msg = ''Error occurred in Cognito handler'',
          meta = Some (MObj [(''error'', MVal (JRef 0)), (''event'', MEvent ())])\<rparr>] = 2
   \<and> count_logs is_success_log
        [\<lparr>level = Info, msg = ''Execution started'', meta = None\<rparr>,
         \<lparr>level = Error, msg = ''Unknown error occurred'',
          meta = Some (MObj [(''data'', MObj [(''error'', MVal (JStr ''boom''))])])\<rparr>,
         \<lparr>level = Error, msg = ''Error occurred in Cognito handler'',
          meta = Some (MObj [(''error'', MVal (JRef 0)), (''event'', MEvent ())])\<rparr>] = 0"
  by (simp add: execute_def throw_value_def CognitoBaseHandler_handleError_def initial_def
        logger_info_def logger_error_def new_Error_def alloc_def instanceof_Error_def
        count_logs_def is_error_log_def is_success_log_def)

text \<open>
  C4, amended. Every invocation writes exactly one start log, before \<^verbatim>\<open>handleRequest\<close> runs.
  When \<^verbatim>\<open>handleRequest\<close> settles, \<^verbatim>\<open>execute\<close> adds to what \<^verbatim>\<open>handleRequest\<close> logged: one success
  log and nothing else on success; nothing on a failure with an \<^verbatim>\<open>Error\<close>; one error log on a
  thrown value that is not an \<^verbatim>\<open>Error\<close>; on both failures the logs of \<^verbatim>\<open>handleError\<close> follow.
  In the identity-event specialization \<^verbatim>\<open>handleError\<close> writes one error log, so the
  invocation adds no start log, one success log exactly on success, and no, one or two
  error logs on success, on a failure with an \<^verbatim>\<open>Error\<close> and on a thrown value that is not an
  \<^verbatim>\<open>Error\<close>.
\<close>

theorem invocation_log_counts:
  assumes "handleRequest (logger_info ''Execution started'' None s) = Some (out, s1)"
      and "handleRequest' (logger_info ''Execution started'' None t) = Some (out', t1)"
  shows "count_logs is_start_log (logs (logger_info ''Execution started'' None s))
           = count_logs is_start_log (logs s) + 1
       \<and> execute handleRequest handleError s
           = (case out of
                Returned x \<Rightarrow>
                  Some (Returned x,
                        s1\<lparr>logs := logs s1 @ [\<lparr>level = Info, msg = ''Request handled successfully'',
                                            meta = None\<rparr>]\<rparr>)
              | Thrown v \<Rightarrow>
                  if instanceof_Error s1 v then handleError v s1
                  else handleError (JRef (length (heap s1)))
                         (s1\<lparr>logs := logs s1 @ [\<lparr>level = Error, msg = ''Unknown error occurred'',
                                 meta = Some (MObj [(''data'', MObj [(''error'', MVal v)])])\<rparr>],
                              heap := heap s1 @ [ErrorObj ''Error'' ''Unknown error occurred'']\<rparr>))
       \<and> (\<exists>r t'. execute handleRequest' CognitoBaseHandler_handleError t = Some (r, t')
             \<and> count_logs is_start_log (logs t') = count_logs is_start_log (logs t1)
             \<and> count_logs is_success_log (logs t')
                 = count_logs is_success_log (logs t1)
                   + (case out' of Returned x \<Rightarrow> 1 | Thrown v \<Rightarrow> 0)
             \<and> count_logs is_error_log (logs t')
                 = count_logs is_error_log (logs t1)
                   + (case out' of
                        Returned x \<Rightarrow> 0
                      | Thrown v \<Rightarrow> if instanceof_Error t1 v then 1 else 2))"
proof -
  have a: "count_logs is_start_log (logs (logger_info ''Execution started'' None s))
             = count_logs is_start_log (logs s) + 1"
    by (simp add: logs_logger_info count_logs_append count_start_simps)
  have b: "execute handleRequest handleError s
           = (case out of
                Returned x \<Rightarrow>
                  Some (Returned x,
                        s1\<lparr>logs := logs s1 @ [\<lparr>level = Info, msg = ''Request handled successfully'',
                                            meta = None\<rparr>]\<rparr>)
              | Thrown v \<Rightarrow>
                  if instanceof_Error s1 v then handleError v s1
                  else handleError (JRef (length (heap s1)))
                         (s1\<lparr>logs := logs s1 @ [\<lparr>level = Error, msg = ''Unknown error occurred'',
                                 meta = Some (MObj [(''data'', MObj [(''error'', MVal v)])])\<rparr>],
                              heap := heap s1 @ [ErrorObj ''Error'' ''Unknown error occurred'']\<rparr>))"
    using assms(1)
    by (cases out)
       (simp_all add: execute_def logger_info_def logger_error_def new_Error_def alloc_def)
  have c: "\<exists>r t'. execute handleRequest' CognitoBaseHandler_handleError t = Some (r, t')
             \<and> count_logs is_start_log (logs t') = count_logs is_start_log (logs t1)
             \<and> count_logs is_success_log (logs t')
                 = count_logs is_success_log (logs t1)
                   + (case out' of Returned x \<Rightarrow> 1 | Thrown v \<Rightarrow> 0)
             \<and> count_logs is_error_log (logs t')
                 = count_logs is_error_log (logs t1)
                   + (case out' of
                        Returned x \<Rightarrow> 0
                      | Thrown v \<Rightarrow> if instanceof_Error t1 v then 1 else 2)"
    using assms(2)
    by (cases out')
       (simp_all add: execute_def CognitoBaseHandler_handleError_def logger_error_def
          logger_info_def new_Error_def alloc_def count_logs_def is_start_log_def
          is_success_log_def is_error_log_def)
  from a b c show ?thesis by blast
qed

theorem invocation_log_counts_witness:
  "throw_new_Error ''invalid token'' (logger_info ''Execution started'' None (initial ()))
     = Some (Thrown (JRef 0),
         \<lparr>heap = [ErrorObj ''Error'' ''invalid token''],
          logs = [\<lparr>level = Info, msg = ''Execution started'', meta = None\<rparr>],
          this_event = ()\<rparr>)
   \<and> execute (throw_new_Error ''invalid token'') (fallback_handleError (0::int)) (initial ())
       = Some (Returned 0,
           \<lparr>heap = [ErrorObj ''Error'' ''invalid token''],
            logs = [\<lparr>level = Info, msg = ''Execution started'', meta = None\<rparr>],
            this_event = ()\<rparr>)
   \<and> (\<exists>r t'. execute (throw_new_Error ''invalid token'') CognitoBaseHandler_handleError
               (initial ()) = Some (r, t')
          \<and> count_logs is_start_log (logs t') = 1
          \<and> count_logs is_success_log (logs t') = 0
          \<and> count_logs is_error_log (logs t') = 1)"
proof -
  let ?s1 = "\<lparr>heap = [ErrorObj ''Error'' ''invalid token''],
              logs = [\<lparr>level = Info, msg = ''Execution started'', meta = None\<rparr>],
              this_event = ()\<rparr>"
  have h: "throw_new_Error ''invalid token'' (logger_info ''Execution started'' None (initial ()))
             = Some (Thrown (JRef 0), ?s1)"
    by (simp add: throw_new_Error_def new_Error_def alloc_def logger_info_def initial_def)
  note th = invocation_log_counts [where handleRequest = "throw_new_Error ''invalid token''"
        and s = "initial ()" and out = "Thrown (JRef 0)" and ?s1.0 = ?s1
        and handleError = "fallback_handleError (0::int)"
        and handleRequest' = "throw_new_Error ''invalid token''"
        and t = "initial ()" and out' = "Thrown (JRef 0)" and ?t1.0 = ?s1, OF h h]
  from th have
    "execute (throw_new_Error ''invalid token'') (fallback_handleError (0::int)) (initial ())
       = Some (Returned 0, ?s1)"
    by (simp add: instanceof_Error_def fallback_handleError_def)
  moreover from th have
    "\<exists>r t'. execute (throw_new_Error ''invalid token'') CognitoBaseHandler_handleError
               (initial ()) = Some (r, t')
          \<and> count_logs is_start_log (logs t') = 1
          \<and> count_logs is_success_log (logs t') = 0
          \<and> count_logs is_error_log (logs t') = 1"
    by (simp add: instanceof_Error_def count_logs_def is_start_log_def is_success_log_def
          is_error_log_def)
  ultimately show ?thesis using h by blast
qed

section \<open>The identity-event specialization\<close>

text \<open>
  C5. In the identity-event specialization, when \<^verbatim>\<open>handleRequest\<close> fails with an \<^verbatim>\<open>Error\<close>,
  \<^verbatim>\<open>handleError\<close> writes one error log that holds the thrown reference and the event of the
  handler, and throws the reference it was given: \<^verbatim>\<open>execute\<close> fails with the very reference
  \<^verbatim>\<open>handleRequest\<close> threw, the object it refers to is untouched, and exactly one log entry,
  an error log, is added to what \<^verbatim>\<open>handleRequest\<close> left. \<^verbatim>\<open>handleError\<close> never returns a result,
  whatever it is given.
\<close>

theorem cognito_rethrows_same_error:
  assumes "handleRequest (logger_info ''Execution started'' None s) = Some (Thrown err, s1)"
      and "instanceof_Error s1 err"
  shows "execute handleRequest CognitoBaseHandler_handleError s
           = Some (Thrown err,
                   s1\<lparr>logs := logs s1 @
                         [\<lparr>level = Error, msg = ''Error occurred in Cognito handler'',
                           meta = Some (MObj [(''error'', MVal err),
                                              (''event'', MEvent (this_event s1))])\<rparr>]\<rparr>)
       \<and> error_info
           (s1\<lparr>logs := logs s1 @
                  [\<lparr>level = Error, msg = ''Error occurred in Cognito handler'',
                    meta = Some (MObj [(''error'', MVal err),
                                       (''event'', MEvent (this_event s1))])\<rparr>]\<rparr>) err
           = error_info s1 err
       \<and> count_logs is_error_log
           (logs s1 @ [\<lparr>level = Error, msg = ''Error occurred in Cognito handler'',
                        meta = Some (MObj [(''error'', MVal err),
                                           (''event'', MEvent (this_event s1))])\<rparr>])
           = count_logs is_error_log (logs s1) + 1
       \<and> CognitoBaseHandler_handleError e u
           = Some (Thrown e,
                   u\<lparr>logs := logs u @
                        [\<lparr>level = Error, msg = ''Error occurred in Cognito handler'',
                          meta = Some (MObj [(''error'', MVal e),
                                             (''event'', MEvent (this_event u))])\<rparr>]\<rparr>)"
proof -
  have "execute handleRequest CognitoBaseHandler_handleError s
          = CognitoBaseHandler_handleError err s1"
    using assms by (rule execute_thrown_Error)
  then show ?thesis
    by (simp add: CognitoBaseHandler_handleError_def logger_error_def error_info_logs_update
          count_logs_append count_error_simps)
qed

theorem cognito_rethrows_same_error_witness:
  "throw_new_Error ''invalid token''
       (logger_info ''Execution started'' None (initial ''sign-up''))
     = Some (Thrown (JRef 0),
         \<lparr>heap = [ErrorObj ''Error'' ''invalid token''],
          logs = [\<lparr>level = Info, msg = ''Execution started'', meta = None\<rparr>],
          this_event = ''sign-up''\<rparr>)
   \<and> instanceof_Error
        \<lparr>heap = [ErrorObj ''Error'' ''invalid token''],
         logs = [\<lparr>level = Info, msg = ''Execution started'', meta = None\<rparr>],
         this_event = ''sign-up''\<rparr> (JRef 0)
   \<and> execute (throw_new_Error ''invalid token'') CognitoBaseHandler_handleError
        (initial ''sign-up'')
     = Some (Thrown (JRef 0),
         \<lparr>heap = [ErrorObj ''Error'' ''invalid token''],
          logs = [\<lparr>level = Info, msg = ''Execution started'', meta = None\<rparr>,
                  \<lparr>level = Error, msg = ''Error occurred in Cognito handler'',
                   meta = Some (MObj [(''error'', MVal (JRef 0)),
                                      (''event'', MEvent ''sign-up'')])\<rparr>],
          this_event = ''sign-up''\<rparr>)"
proof -
  let ?s1 = "\<lparr>heap = [ErrorObj ''Error'' ''invalid token''],
              logs = [\<lparr>level = Info, msg = ''Execution started'', meta = None\<rparr>],
              this_event = ''sign-up''\<rparr>"
  have h1: "throw_new_Error ''invalid token''
              (logger_info ''Execution started'' None (initial ''sign-up''))
              = Some (Thrown (JRef 0), ?s1)"
    by (simp add: throw_new_Error_def new_Error_def alloc_def logger_info_def initial_def)
  have h2: "instanceof_Error ?s1 (JRef 0)"
    by (simp add: instanceof_Error_def)
  note th = cognito_rethrows_same_error [where handleRequest = "throw_new_Error ''invalid token''"
        and s = "initial ''sign-up''" and err = "JRef 0" and ?s1.0 = ?s1
        and e = "JRef 0" and u = ?s1, OF h1 h2]
  from th have
    "execute (throw_new_Error ''invalid token'') CognitoBaseHandler_handleError
        (initial ''sign-up'')
     = Some (Thrown (JRef 0),
         \<lparr>heap = [ErrorObj ''Error'' ''invalid token''],
          logs = [\<lparr>level = Info, msg = ''Execution started'', meta = None\<rparr>,
                  \<lparr>level = Error, msg = ''Error occurred in Cognito handler'',
                   meta = Some (MObj [(''error'', MVal (JRef 0)),
                                      (''event'', MEvent ''sign-up'')])\<rparr>],
          this_event = ''sign-up''\<rparr>)"
    by simp
  with h1 h2 show ?thesis by blast
qed

section \<open>The HTTP specialization: errors become responses\<close>

text \<open>
  C6. With the Error Classifier of the spec, \<^verbatim>\<open>handleError\<close> of the HTTP specialization
  returns a response for every value it is given and never throws; hence whenever
  \<^verbatim>\<open>handleRequest\<close> settles, whether it returns, fails with an \<^verbatim>\<open>Error\<close> or throws another value,
  \<^verbatim>\<open>execute\<close> returns a response and no error escapes it. An error whose class the classifier
  does not recognise gets the generic server-error response, with status 500 and a fixed
  body, whatever the message of the error is.
\<close>

theorem http_handleError_total:
  assumes "handleRequest (logger_info ''Execution started'' None t) = Some (out, t1)"
      and "error_info u e = Some (c, m)"
      and "table c = None"
  shows "(\<exists>r s'. APIGatewayBaseHandler_handleError (error_handler_handleError table) err s
                   = Some (Returned r, s'))
       \<and> (\<exists>r t'. execute handleRequest
                     (APIGatewayBaseHandler_handleError (error_handler_handleError table)) t
                   = Some (Returned r, t'))
       \<and> (\<exists>u'. APIGatewayBaseHandler_handleError (error_handler_handleError table) e u
                 = Some (Returned generic_server_error, u'))
       \<and> statusCode generic_server_error = 500
       \<and> resultBody generic_server_error = ''Internal Server Error''"
proof -
  let ?H = "APIGatewayBaseHandler_handleError (error_handler_handleError table)"
  have total: "\<exists>r s''. ?H e' s' = Some (Returned r, s'')" for e' s'
    by (simp add: APIGatewayBaseHandler_handleError_def error_handler_handleError_def)
  have esc: "\<exists>r t'. execute handleRequest ?H t = Some (Returned r, t')"
  proof (cases out)
    case (Returned x)
    with assms(1) show ?thesis by (simp add: execute_returned)
  next
    case (Thrown v)
    show ?thesis
    proof (cases "instanceof_Error t1 v")
      case True
      with assms(1) Thrown have "execute handleRequest ?H t = ?H v t1"
        by (simp add: execute_thrown_Error)
      with total [of v t1] show ?thesis by simp
    next
      case False
      with assms(1) Thrown obtain a t3 where "execute handleRequest ?H t = ?H a t3"
        by (simp add: execute_thrown_other)
      with total [of a t3] show ?thesis by simp
    qed
  qed
  have gen: "\<exists>u'. ?H e u = Some (Returned generic_server_error, u')"
    using assms(2,3)
    by (simp add: APIGatewayBaseHandler_handleError_def error_handler_handleError_def)
  have "statusCode generic_server_error = 500"
    and "resultBody generic_server_error = ''Internal Server Error''"
    by (simp_all add: generic_server_error_def)
  with total [of err s] esc gen show ?thesis by (intro conjI)
qed

theorem http_handleError_total_witness:
  "throw_new_Error ''connection to db-7 refused''
       (logger_info ''Execution started'' None
          (initial \<lparr>body = None :: string option, headers = [], other = ()\<rparr>))
     = Some (Thrown (JRef 0),
         \<lparr>heap = [ErrorObj ''Error'' ''connection to db-7 refused''],
          logs = [\<lparr>level = Info, msg = ''Execution started'', meta = None\<rparr>],
          this_event = \<lparr>body = None :: string option, headers = [], other = ()\<rparr>\<rparr>)
   \<and> error_info
        \<lparr>heap = [ErrorObj ''Error'' ''connection to db-7 refused''],
         logs = [\<lparr>level = Info, msg = ''Execution started'', meta = None\<rparr>],
         this_event = \<lparr>body = None :: string option, headers = [], other = ()\<rparr>\<rparr> (JRef 0)
       = Some (''Error'', ''connection to db-7 refused'')
   \<and> map_of [(''ValidationError'',
               \<lambda>m. \<lparr>statusCode = 400, resultHeaders = [], resultBody = m\<rparr>)] ''Error'' = None
   \<and> (\<exists>r t'. execute (throw_new_Error ''connection to db-7 refused'')
                (APIGatewayBaseHandler_handleError
                   (error_handler_handleError
                      (map_of [(''ValidationError'',
                                \<lambda>m. \<lparr>statusCode = 400, resultHeaders = [], resultBody = m\<rparr>)])))
                (initial \<lparr>body = None :: string option, headers = [], other = ()\<rparr>)
              = Some (Returned r, t'))
   \<and> execute (throw_new_Error ''connection to db-7 refused'')
        (APIGatewayBaseHandler_handleError
           (error_handler_handleError
              (map_of [(''ValidationError'',
                        \<lambda>m. \<lparr>statusCode = 400, resultHeaders = [], resultBody = m\<rparr>)])))
        (initial \<lparr>body = None :: string option, headers = [], other = ()\<rparr>)
     = Some (Returned \<lparr>statusCode = 500, resultHeaders = [],
                       resultBody = ''Internal Server Error''\<rparr>,
         \<lparr>heap = [ErrorObj ''Error'' ''connection to db-7 refused''],
          logs = [\<lparr>level = Info, msg = ''Execution started'', meta = None\<rparr>],
          this_event = \<lparr>body = None :: string option, headers = [], other = ()\<rparr>\<rparr>)"
proof -
  let ?ev = "\<lparr>body = None :: string option, headers = [], other = ()\<rparr>"
  let ?s1 = "\<lparr>heap = [ErrorObj ''Error'' ''connection to db-7 refused''],
              logs = [\<lparr>level = Info, msg = ''Execution started'', meta = None\<rparr>],
              this_event = ?ev\<rparr>"
  let ?table = "map_of [(''ValidationError'',
                         \<lambda>m. \<lparr>statusCode = 400, resultHeaders = [], resultBody = m\<rparr>)]"
  let ?H = "APIGatewayBaseHandler_handleError (error_handler_handleError ?table)
              :: jsval \<Rightarrow> (unit APIGatewayProxyEvent, APIGatewayProxyResult) comp"
  have h1: "throw_new_Error ''connection to db-7 refused''
              (logger_info ''Execution started'' None (initial ?ev))
              = Some (Thrown (JRef 0), ?s1)"
    by (simp add: throw_new_Error_def new_Error_def alloc_def logger_info_def initial_def)
  have h2: "error_info ?s1 (JRef 0) = Some (''Error'', ''connection to db-7 refused'')"
    by (simp add: error_info_def)
  have h3: "?table ''Error'' = None"
    by simp
  note th = http_handleError_total [where handleRequest = "throw_new_Error ''connection to db-7 refused''"
        and t = "initial ?ev" and out = "Thrown (JRef 0)" and ?t1.0 = ?s1
        and u = ?s1 and e = "JRef 0" and c = "''Error''" and m = "''connection to db-7 refused''"
        and table = ?table and err = "JRef 0" and s = ?s1, OF h1 h2 h3]
  from th have a: "\<exists>r t'. execute (throw_new_Error ''connection to db-7 refused'') ?H
                      (initial ?ev) = Some (Returned r, t')"
    by (elim conjE)
  have "instanceof_Error ?s1 (JRef 0)"
    by (simp add: instanceof_Error_def)
  with h1 have "execute (throw_new_Error ''connection to db-7 refused'') ?H (initial ?ev)
                  = ?H (JRef 0) ?s1"
    by (rule execute_thrown_Error)
  then have b: "execute (throw_new_Error ''connection to db-7 refused'') ?H (initial ?ev)
       = Some (Returned \<lparr>statusCode = 500, resultHeaders = [],
                         resultBody = ''Internal Server Error''\<rparr>, ?s1)"
    by (simp add: APIGatewayBaseHandler_handleError_def error_handler_handleError_def
          error_info_def generic_server_error_def)
  from h1 h2 h3 a b show ?thesis by (intro conjI)
qed

section \<open>The HTTP specialization: access check and response format\<close>

text \<open>
  C8. With the Authorization mediator of the spec, \<^verbatim>\<open>checkAccess\<close> with the empty role set
  throws a new AuthorizationError for every event, every state and every assignment of
  roles to the actor.
\<close>

theorem checkAccess_empty_roles:
  "checkAccess (auth_checkAccess actor_roles) [] s
     = Some (Thrown (JRef (length (heap s))),
             s\<lparr>heap := heap s @ [ErrorObj ''AuthorizationError'' []]\<rparr>)
   \<and> map_option fst
        (error_info (s\<lparr>heap := heap s @ [ErrorObj ''AuthorizationError'' []]\<rparr>)
           (JRef (length (heap s))))
       = Some ''AuthorizationError''"
  by (simp add: checkAccess_def auth_checkAccess_def alloc_def error_info_def)

theorem checkAccess_empty_roles_witness:
  "checkAccess (auth_checkAccess (\<lambda>ev. [''admin'', ''editor''])) []
       (initial \<lparr>body = None, headers = [], other = ()\<rparr>)
     = Some (Thrown (JRef 0),
         \<lparr>heap = [ErrorObj ''AuthorizationError'' []], logs = [],
          this_event = \<lparr>body = None, headers = [], other = ()\<rparr>\<rparr>)"
  using checkAccess_empty_roles [where actor_roles = "\<lambda>ev. [''admin'', ''editor'']"
      and s = "initial \<lparr>body = None, headers = [], other = ()\<rparr>"]
  by (simp add: initial_def)

text \<open>
  C9. With the Response Formatter of the spec, \<^verbatim>\<open>formatResponse\<close> returns the formatted input
  and leaves the state as it is; called on the same input in any two states it returns the
  same response (the same status code, headers and body string).
\<close>

theorem formatResponse_deterministic:
  "formatResponse (response_formatResponse serialize) response s
     = Some (Returned (response_formatResponse serialize response), s)
   \<and> (\<exists>r. formatResponse (response_formatResponse serialize) response s = Some (Returned r, s)
          \<and> formatResponse (response_formatResponse serialize) response s' = Some (Returned r, s'))"
  by (simp add: formatResponse_def)

theorem formatResponse_deterministic_witness:
  "formatResponse (response_formatResponse (\<lambda>b. b))
       \<lparr>inputStatusCode = 200, inputBody = ''ok'', inputHeaders = []\<rparr> (initial ())
     = Some (Returned \<lparr>statusCode = 200, resultHeaders = [], resultBody = ''ok''\<rparr>, initial ())"
  using formatResponse_deterministic [where serialize = "\<lambda>b. b"
      and response = "\<lparr>inputStatusCode = 200, inputBody = ''ok'', inputHeaders = []\<rparr>"
      and s = "initial ()" and s' = "initial ()"]
  by (simp add: response_formatResponse_def)

section \<open>The HTTP specialization: \<^verbatim>\<open>parseSchema\<close>\<close>

lemma parseSchema_falsy:
  "\<not> truthy (body (this_event s))
     \<Longrightarrow> parseSchema json_body_parser zodParser schema s
           = zodParser schema
               \<lparr>body = [], headers = headers (this_event s), other = other (this_event s)\<rparr> s"
  by (simp add: parseSchema_def Let_def)

lemma parseSchema_parsed:
  "truthy (body (this_event s))
     \<Longrightarrow> json_body_parser (body (this_event s)) (headers (this_event s)) s
           = Some (Returned m, s1)
     \<Longrightarrow> parseSchema json_body_parser zodParser schema s
           = zodParser schema
               \<lparr>body = m, headers = headers (this_event s), other = other (this_event s)\<rparr> s1"
  by (simp add: parseSchema_def parseJSONBody_def Let_def)

lemma parseSchema_parser_throws:
  "truthy (body (this_event s))
     \<Longrightarrow> json_body_parser (body (this_event s)) (headers (this_event s)) s
           = Some (Thrown e, s1)
     \<Longrightarrow> parseSchema json_body_parser zodParser schema s = Some (Thrown e, s1)"
  by (simp add: parseSchema_def parseJSONBody_def Let_def)

text \<open>
  C7, as the spec states it, lets \<^verbatim>\<open>parseSchema\<close> end in two ways only: the validated value
  or a ValidationError. A body that the parser rejects ends it in a third way: the
  ParseError of \<^verbatim>\<open>parseJSONBody\<close> leaves the method, no derived view is built and the validator
  (here one that accepts every view) is never asked.
\<close>

theorem parseSchema_ParseError_escapes:
  "parseSchema (table_parser [(''{}'', [])]) required_keys []
       (initial \<lparr>body = Some ''{'', headers = [(''content-type'', ''application/json'')], other = ()\<rparr>)
     = (Some (Thrown (JRef 0),
          \<lparr>heap = [ErrorObj ''ParseError'' ''malformed body''], logs = [],
           this_event = \<lparr>body = Some ''{'', headers = [(''content-type'', ''application/json'')], other = ()\<rparr>\<rparr>)
        :: ((string \<times> jsval) list outcome \<times> unit APIGatewayProxyEvent state) option)
   \<and> error_info
        \<lparr>heap = [ErrorObj ''ParseError'' ''malformed body''], logs = [],
         this_event = \<lparr>body = Some ''{'', headers = [(''content-type'', ''application/json'')], other = ()\<rparr>\<rparr> (JRef 0)
       = Some (''ParseError'', ''malformed body'')"
  by (simp add: parseSchema_def parseJSONBody_def table_parser_def truthy_def alloc_def
        initial_def error_info_def Let_def)

text \<open>
  C7, amended. \<^verbatim>\<open>parseSchema\<close> calls \<^verbatim>\<open>parseJSONBody\<close> exactly when the body of the event is a
  non-empty string. If that call throws, \<^verbatim>\<open>parseSchema\<close> throws the same value and the
  validator is not called. If it returns a mapping, the derived view has this mapping as
  its body; when the body is \<^verbatim>\<open>null\<close> or the empty string the body of the view is the empty
  mapping. Every other field of the view is the field of the event, the validator is
  called with the bound schema and the view, and what it returns or throws is the outcome
  of \<^verbatim>\<open>parseSchema\<close>. \<^verbatim>\<open>parseSchema\<close> itself does not write to the event: if the two mediators
  leave it as it is, it is unchanged after the call.
\<close>

theorem parseSchema_delegates:
  assumes "truthy (body (this_event s))"
      and "json_body_parser (body (this_event s)) (headers (this_event s)) s
             = Some (Returned m, s1)"
      and "truthy (body (this_event t))"
      and "json_body_parser (body (this_event t)) (headers (this_event t)) t
             = Some (Thrown e, t1)"
      and "\<not> truthy (body (this_event u))"
      and "\<And>b h x out x'. json_body_parser b h x = Some (out, x')
             \<Longrightarrow> this_event x' = this_event x"
      and "\<And>view x out x'. zodParser schema view x = Some (out, x')
             \<Longrightarrow> this_event x' = this_event x"
      and "parseSchema json_body_parser zodParser schema w = Some (out, w')"
  shows "parseSchema json_body_parser zodParser schema s
           = zodParser schema
               \<lparr>body = m, headers = headers (this_event s), other = other (this_event s)\<rparr> s1
       \<and> parseSchema json_body_parser zodParser schema t = Some (Thrown e, t1)
       \<and> parseSchema json_body_parser zodParser' schema' t = Some (Thrown e, t1)
       \<and> parseSchema json_body_parser zodParser schema u
           = zodParser schema
               \<lparr>body = [], headers = headers (this_event u), other = other (this_event u)\<rparr> u
       \<and> this_event w' = this_event w"
proof -
  have a: "parseSchema json_body_parser zodParser schema s
           = zodParser schema
               \<lparr>body = m, headers = headers (this_event s), other = other (this_event s)\<rparr> s1"
    using assms(1,2) by (rule parseSchema_parsed)
  have b: "parseSchema json_body_parser zodParser schema t = Some (Thrown e, t1)"
    using assms(3,4) by (rule parseSchema_parser_throws)
  have b': "parseSchema json_body_parser zodParser' schema' t = Some (Thrown e, t1)"
    using assms(3,4) by (rule parseSchema_parser_throws)
  have c: "parseSchema json_body_parser zodParser schema u
           = zodParser schema
               \<lparr>body = [], headers = headers (this_event u), other = other (this_event u)\<rparr> u"
    using assms(5) by (rule parseSchema_falsy)
  have d: "this_event w' = this_event w"
  proof (cases "truthy (body (this_event w))")
    case False
    with assms(8) have "zodParser schema
        \<lparr>body = [], headers = headers (this_event w), other = other (this_event w)\<rparr> w
        = Some (out, w')"
      by (simp add: parseSchema_falsy)
    then show ?thesis by (rule assms(7))
  next
    case True
    show ?thesis
    proof (cases "json_body_parser (body (this_event w)) (headers (this_event w)) w")
      case None
      with True assms(8) show ?thesis
        by (simp add: parseSchema_def parseJSONBody_def Let_def)
    next
      case (Some p)
      obtain o1 w1 where p: "p = (o1, w1)" by (cases p)
      with Some have pw: "this_event w1 = this_event w" by (auto dest: assms(6))
      show ?thesis
      proof (cases o1)
        case (Thrown x)
        with True Some p assms(8) have "w' = w1"
          by (simp add: parseSchema_parser_throws)
        with pw show ?thesis by simp
      next
        case (Returned m')
        with True Some p assms(8) have "zodParser schema
            \<lparr>body = m', headers = headers (this_event w), other = other (this_event w)\<rparr> w1
            = Some (out, w')"
          by (simp add: parseSchema_parsed)
        then have "this_event w' = this_event w1" by (rule assms(7))
        with pw show ?thesis by simp
      qed
    qed
  qed
  from a b b' c d show ?thesis by (intro conjI)
qed

theorem parseSchema_delegates_witness:
  "parseSchema (table_parser [(''{a:1}'', [(''a'', JNum 1)])]) required_keys [''a'']
       (initial \<lparr>body = Some ''{a:1}'', headers = [], other = ()\<rparr>)
     = Some (Returned [(''a'', JNum 1)],
             initial \<lparr>body = Some ''{a:1}'', headers = [], other = ()\<rparr>)
   \<and> parseSchema (table_parser [(''{a:1}'', [(''a'', JNum 1)])]) required_keys [''a'']
       (initial \<lparr>body = Some ''{'', headers = [], other = ()\<rparr>)
     = Some (Thrown (JRef 0),
         \<lparr>heap = [ErrorObj ''ParseError'' ''malformed body''], logs = [],
          this_event = \<lparr>body = Some ''{'', headers = [], other = ()\<rparr>\<rparr>)
   \<and> parseSchema (table_parser [(''{a:1}'', [(''a'', JNum 1)])]) required_keys [''a'']
       (initial \<lparr>body = None, headers = [], other = ()\<rparr>)
     = Some (Thrown (JRef 0),
         \<lparr>heap = [ErrorObj ''ValidationError'' ''missing field''], logs = [],
          this_event = \<lparr>body = None, headers = [], other = ()\<rparr>\<rparr>)"
proof -
  let ?p = "table_parser [(''{a:1}'', [(''a'', JNum 1)])]
              :: string option \<Rightarrow> (string \<times> string) list
                   \<Rightarrow> (unit APIGatewayProxyEvent, (string \<times> jsval) list) comp"
  let ?z = "required_keys
              :: string list \<Rightarrow> (jsval, unit) APIGatewayParsedEvent
                   \<Rightarrow> (unit APIGatewayProxyEvent, (string \<times> jsval) list) comp"
  let ?s = "initial \<lparr>body = Some ''{a:1}'', headers = [], other = ()\<rparr>"
  let ?t = "initial \<lparr>body = Some ''{'', headers = [], other = ()\<rparr>"
  let ?t1 = "\<lparr>heap = [ErrorObj ''ParseError'' ''malformed body''], logs = [],
              this_event = \<lparr>body = Some ''{'', headers = [], other = ()\<rparr>\<rparr>"
  let ?u = "initial \<lparr>body = None :: string option, headers = [], other = ()\<rparr>"
  have h1: "truthy (body (this_event ?s))"
    by (simp add: truthy_def initial_def)
  have h2: "?p (body (this_event ?s)) (headers (this_event ?s)) ?s
              = Some (Returned [(''a'', JNum 1)], ?s)"
    by (simp add: table_parser_def initial_def)
  have h3: "truthy (body (this_event ?t))"
    by (simp add: truthy_def initial_def)
  have h4: "?p (body (this_event ?t)) (headers (this_event ?t)) ?t
              = Some (Thrown (JRef 0), ?t1)"
    by (simp add: table_parser_def initial_def alloc_def)
  have h5: "\<not> truthy (body (this_event ?u))"
    by (simp add: truthy_def initial_def)
  have h6: "this_event x' = this_event x" if "?p b h x = Some (out, x')" for b h x out x'
    using that
    by (auto simp: table_parser_def alloc_def split: option.splits)
  have h7: "this_event x' = this_event x" if "?z [''a''] view x = Some (out, x')"
    for view x out x'
    using that
    by (auto simp: required_keys_def alloc_def split: if_splits)
  have h8: "parseSchema ?p ?z [''a''] ?s = Some (Returned [(''a'', JNum 1)], ?s)"
    using h1 h2
    by (simp add: parseSchema_parsed [where json_body_parser = ?p and s = ?s
          and m = "[(''a'', JNum 1)]" and ?s1.0 = ?s] required_keys_def)
  note th = parseSchema_delegates [where json_body_parser = ?p and zodParser = ?z
      and schema = "[''a'']" and s = ?s and m = "[(''a'', JNum 1)]" and ?s1.0 = ?s
      and t = ?t and e = "JRef 0" and ?t1.0 = ?t1 and u = ?u
      and w = ?s and out = "Returned [(''a'', JNum 1)]" and w' = ?s
      and zodParser' = ?z and schema' = "[''a'']",
      OF h1 h2 h3 h4 h5 h6 h7 h8]
  from th have a: "parseSchema ?p ?z [''a''] ?s = Some (Returned [(''a'', JNum 1)], ?s)"
    by (simp add: required_keys_def)
  from th have b: "parseSchema ?p ?z [''a''] ?t = Some (Thrown (JRef 0), ?t1)"
    by simp
  from th have c: "parseSchema ?p ?z [''a''] ?u
     = Some (Thrown (JRef 0),
         \<lparr>heap = [ErrorObj ''ValidationError'' ''missing field''], logs = [],
          this_event = \<lparr>body = None, headers = [], other = ()\<rparr>\<rparr>)"
    by (simp add: required_keys_def alloc_def initial_def)
  from a b c show ?thesis by (intro conjI)
qed

text \<open>
  C10. An event whose body is the empty string is treated as an event without a body: the
  derived view gets the empty mapping, the validator is called in the unchanged state, and
  \<^verbatim>\<open>parseJSONBody\<close> is not invoked, since the outcome is the same for every body parser. An
  event whose body is \<^verbatim>\<open>null\<close> is handled by the same call of the validator.
\<close>

theorem parseSchema_empty_body:
  assumes "body (this_event s) = Some ''''"
      and "body (this_event t) = None"
  shows "parseSchema json_body_parser zodParser schema s
           = zodParser schema
               \<lparr>body = [], headers = headers (this_event s), other = other (this_event s)\<rparr> s
       \<and> parseSchema json_body_parser' zodParser schema s
           = parseSchema json_body_parser zodParser schema s
       \<and> parseSchema json_body_parser zodParser schema t
           = zodParser schema
               \<lparr>body = [], headers = headers (this_event t), other = other (this_event t)\<rparr> t"
  using assms by (simp add: parseSchema_falsy truthy_def)

theorem parseSchema_empty_body_witness:
  "parseSchema (table_parser [(''{a:1}'', [(''a'', JNum 1)])]) required_keys []
       (initial \<lparr>body = Some '''', headers = [], other = ()\<rparr>)
     = Some (Returned ([] :: (string \<times> jsval) list),
             initial \<lparr>body = Some '''', headers = [], other = ()\<rparr>)
   \<and> parseSchema (table_parser [(''{a:1}'', [(''a'', JNum 1)])]) required_keys []
       (initial \<lparr>body = None, headers = [], other = ()\<rparr>)
     = Some (Returned ([] :: (string \<times> jsval) list),
             initial \<lparr>body = None, headers = [], other = ()\<rparr>)
   \<and> table_parser [(''{a:1}'', [(''a'', JNum (1::int))])] (Some '''') []
       (initial \<lparr>body = Some '''', headers = [], other = ()\<rparr>)
     = Some (Thrown (JRef 0),
         \<lparr>heap = [ErrorObj ''ParseError'' ''malformed body''], logs = [],
          this_event = \<lparr>body = Some '''', headers = [], other = ()\<rparr>\<rparr>)"
proof -
  let ?p = "table_parser [(''{a:1}'', [(''a'', JNum 1)])]
              :: string option \<Rightarrow> (string \<times> string) list
                   \<Rightarrow> (unit APIGatewayProxyEvent, (string \<times> jsval) list) comp"
  let ?z = "required_keys
              :: string list \<Rightarrow> (jsval, unit) APIGatewayParsedEvent
                   \<Rightarrow> (unit APIGatewayProxyEvent, (string \<times> jsval) list) comp"
  let ?s = "initial \<lparr>body = Some '''', headers = [], other = ()\<rparr>"
  let ?t = "initial \<lparr>body = None :: string option, headers = [], other = ()\<rparr>"
  have h1: "body (this_event ?s) = Some ''''"
    by (simp add: initial_def)
  have h2: "body (this_event ?t) = None"
    by (simp add: initial_def)
  note th = parseSchema_empty_body [where s = ?s and t = ?t and json_body_parser = ?p
      and json_body_parser' = ?p and zodParser = ?z and schema = "[]", OF h1 h2]
  from th have a: "parseSchema ?p ?z [] ?s = Some (Returned [], ?s)"
    by (simp add: required_keys_def)
  from th have b: "parseSchema ?p ?z [] ?t = Some (Returned [], ?t)"
    by (simp add: required_keys_def)
  have c: "table_parser [(''{a:1}'', [(''a'', JNum (1::int))])] (Some '''') [] ?s
     = Some (Thrown (JRef 0),
         \<lparr>heap = [ErrorObj ''ParseError'' ''malformed body''], logs = [],
          this_event = \<lparr>body = Some '''', headers = [], other = ()\<rparr>\<rparr>)"
    by (simp add: table_parser_def alloc_def initial_def)
  from a b c show ?thesis by (intro conjI)
qed

end
